theory Spec2Isabelle
  imports Complex_Main "HOL-Library.Word"
begin

section \<open>Data model\<close>

text \<open>
  The notebook \<^verbatim>\<open>notebooks/bonus-dl-framework.ipynb\<close> defines \<^verbatim>\<open>dense\<close>,
  \<^verbatim>\<open>logistic\<close>, \<^verbatim>\<open>nn_model\<close> and \<^verbatim>\<open>dense_params\<close> in code cells and quotes the
  \<^verbatim>\<open>stax\<close> definitions of \<^verbatim>\<open>Dense\<close> and \<^verbatim>\<open>serial\<close> that it then uses.

  Python exceptions are values of \<open>error\<close>; a call that raises returns \<open>Inl\<close>.
  \<open>IndexError\<close>, \<open>ValueError\<close> and \<open>KeyError\<close> are the exceptions the quoted code
  can raise by itself (indexing an empty tuple, unpacking, a shape mismatch inside
  \<^verbatim>\<open>np.dot\<close> or \<^verbatim>\<open>+\<close>, a missing dictionary key). \<open>ShapeError\<close> and
  \<open>CompositionError\<close> are the two error kinds of the specification; no statement of
  the notebook constructs either, they can only come out of a layer that a caller
  supplies.
\<close>

datatype error =
    IndexError
  | ValueError
  | KeyError string
  | ShapeError
  | CompositionError nat error

text \<open>
  An array is its shape and its elements in row-major order, as \<^verbatim>\<open>numpy\<close> stores it.
  The element type is a parameter; the arithmetic on elements is exact (the rounding of
  \<^verbatim>\<open>float32\<close> is not modelled).
\<close>

record 'a ndarray =
  shape :: "nat list"
  data :: "'a list"

definition wf_array :: "'a ndarray \<Rightarrow> bool" where
  "wf_array a = (length (data a) = prod_list (shape a))"

text \<open>
  The parameters of one layer: the pair \<^verbatim>\<open>(W, b)\<close> of a dense layer, or the empty
  tuple \<^verbatim>\<open>()\<close> of a layer without parameters.
\<close>

datatype 'a params =
    DenseParams "'a ndarray" "'a ndarray"
  | EmptyParams

text \<open>
  A layer is the pair \<^verbatim>\<open>(init_fun, apply_fun)\<close>. A shape given to \<^verbatim>\<open>init_fun\<close> is a
  Python tuple of integers, where \<^verbatim>\<open>-1\<close> stands for an unknown size. \<^verbatim>\<open>apply_fun\<close>
  receives the optional keyword argument \<^verbatim>\<open>rng\<close>.
\<close>

record ('k, 'p, 'a) layer =
  init_fun :: "'k \<Rightarrow> int list \<Rightarrow> error + int list \<times> 'p"
  apply_fun :: "'p \<Rightarrow> 'a ndarray \<Rightarrow> 'k option \<Rightarrow> error + 'a ndarray"

section \<open>The serial combinator\<close>

text \<open>
  \<^verbatim>\<open>random.split\<close> belongs to \<^verbatim>\<open>jax\<close>, not to the repository: the functions below
  take it as the parameter \<open>random_split\<close> (one seed to two) and \<open>random_split_n\<close>
  (one seed to \<open>n\<close>).

  The loop of \<^verbatim>\<open>serial.init_fun\<close>:
  \<^verbatim>\<open>
    params = []
    for init_fun in init_funs:
        rng, layer_rng = random.split(rng)
        input_shape, param = init_fun(layer_rng, input_shape)
        params.append(param)
    return input_shape, params
  \<close>
\<close>

fun init_loop ::
  "('k \<Rightarrow> 'k \<times> 'k) \<Rightarrow> ('k \<Rightarrow> int list \<Rightarrow> error + int list \<times> 'p) list \<Rightarrow>
   'k \<Rightarrow> int list \<Rightarrow> 'p list \<Rightarrow> error + int list \<times> 'p list" where
  "init_loop random_split [] rng input_shape params = Inr (input_shape, params)"
| "init_loop random_split (f # fs) rng input_shape params =
     (case random_split rng of (rng', layer_rng) \<Rightarrow>
        (case f layer_rng input_shape of
           Inl e \<Rightarrow> Inl e
         | Inr (input_shape', param) \<Rightarrow>
             init_loop random_split fs rng' input_shape' (params @ [param])))"

definition serial_init_fun ::
  "('k \<Rightarrow> 'k \<times> 'k) \<Rightarrow> ('k \<Rightarrow> int list \<Rightarrow> error + int list \<times> 'p) list \<Rightarrow>
   'k \<Rightarrow> int list \<Rightarrow> error + int list \<times> 'p list" where
  "serial_init_fun random_split init_funs rng input_shape =
     init_loop random_split init_funs rng input_shape []"

text \<open>
  The loop of \<^verbatim>\<open>serial.apply_fun\<close> runs over
  \<^verbatim>\<open>zip(apply_funs, params, rngs)\<close>, which stops at the shortest of the three:
  \<^verbatim>\<open>
    rng = kwargs.pop('rng', None)
    rngs = random.split(rng, nlayers) if rng is not None else (None,) * nlayers
    for fun, param, rng in zip(apply_funs, params, rngs):
        inputs = fun(param, inputs, rng=rng, **kwargs)
    return inputs
  \<close>
\<close>

fun apply_loop ::
  "(('p \<Rightarrow> 'a ndarray \<Rightarrow> 'k option \<Rightarrow> error + 'a ndarray) \<times> 'p \<times> 'k option) list \<Rightarrow>
   'a ndarray \<Rightarrow> error + 'a ndarray" where
  "apply_loop [] inputs = Inr inputs"
| "apply_loop ((f, param, rng) # rest) inputs =
     (case f param inputs rng of
        Inl e \<Rightarrow> Inl e
      | Inr inputs' \<Rightarrow> apply_loop rest inputs')"

definition apply_rngs :: "('k \<Rightarrow> nat \<Rightarrow> 'k list) \<Rightarrow> nat \<Rightarrow> 'k option \<Rightarrow> 'k option list" where
  "apply_rngs random_split_n nlayers rng =
     (case rng of
        Some r \<Rightarrow> map Some (random_split_n r nlayers)
      | None \<Rightarrow> replicate nlayers None)"

definition serial_apply_fun ::
  "('k \<Rightarrow> nat \<Rightarrow> 'k list) \<Rightarrow> nat \<Rightarrow>
   ('p \<Rightarrow> 'a ndarray \<Rightarrow> 'k option \<Rightarrow> error + 'a ndarray) list \<Rightarrow>
   'p list \<Rightarrow> 'a ndarray \<Rightarrow> 'k option \<Rightarrow> error + 'a ndarray" where
  "serial_apply_fun random_split_n nlayers apply_funs params inputs rng =
     (let rngs = apply_rngs random_split_n nlayers rng
      in apply_loop (zip apply_funs (zip params rngs)) inputs)"

text \<open>
  \<^verbatim>\<open>serial(*layers)\<close> itself. The statement
  \<^verbatim>\<open>init_funs, apply_funs = zip(*layers)\<close> unpacks exactly two tuples; with no layer
  \<^verbatim>\<open>zip()\<close> yields nothing and the unpacking raises \<^verbatim>\<open>ValueError\<close>. The composite's
  parameters are the list of its layers' parameters.
\<close>

definition serial ::
  "('k \<Rightarrow> 'k \<times> 'k) \<Rightarrow> ('k \<Rightarrow> nat \<Rightarrow> 'k list) \<Rightarrow> ('k, 'p, 'a) layer list \<Rightarrow>
   error + ('k, 'p list, 'a) layer" where
  "serial random_split random_split_n layers =
     (let nlayers = length layers in
      if layers = [] then Inl ValueError
      else Inr \<lparr>init_fun = serial_init_fun random_split (map init_fun layers),
                apply_fun = serial_apply_fun random_split_n nlayers (map apply_fun layers)\<rparr>)"

text \<open>Building the composite and calling one of its two functions:
  \<^verbatim>\<open>serial(*layers)[0](rng, input_shape)\<close> and
  \<^verbatim>\<open>serial(*layers)[1](params, inputs, rng=rng)\<close>.\<close>

definition serial_init ::
  "('k \<Rightarrow> 'k \<times> 'k) \<Rightarrow> ('k \<Rightarrow> nat \<Rightarrow> 'k list) \<Rightarrow> ('k, 'p, 'a) layer list \<Rightarrow>
   'k \<Rightarrow> int list \<Rightarrow> error + int list \<times> 'p list" where
  "serial_init random_split random_split_n layers rng input_shape =
     (case serial random_split random_split_n layers of
        Inl e \<Rightarrow> Inl e
      | Inr composite \<Rightarrow> init_fun composite rng input_shape)"

definition serial_apply ::
  "('k \<Rightarrow> 'k \<times> 'k) \<Rightarrow> ('k \<Rightarrow> nat \<Rightarrow> 'k list) \<Rightarrow> ('k, 'p, 'a) layer list \<Rightarrow>
   'p list \<Rightarrow> 'a ndarray \<Rightarrow> 'k option \<Rightarrow> error + 'a ndarray" where
  "serial_apply random_split random_split_n layers params inputs rng =
     (case serial random_split random_split_n layers of
        Inl e \<Rightarrow> Inl e
      | Inr composite \<Rightarrow> apply_fun composite params inputs rng)"

text \<open>
  The seeds of the loop in \<^verbatim>\<open>serial.init_fun\<close>. The statement
  \<^verbatim>\<open>rng, layer_rng = random.split(rng)\<close> keeps the first seed of the split as the
  running seed (\<open>continuation\<close>) and hands the second to the layer (\<open>child\<close>).
  \<open>running_rng i\<close> is the value of \<^verbatim>\<open>rng\<close> at the start of iteration \<open>i\<close>,
  \<open>layer_seed i\<close> is the \<^verbatim>\<open>layer_rng\<close> of that iteration.
\<close>

definition continuation :: "('k \<Rightarrow> 'k \<times> 'k) \<Rightarrow> 'k \<Rightarrow> 'k" where
  "continuation random_split rng = fst (random_split rng)"

definition child :: "('k \<Rightarrow> 'k \<times> 'k) \<Rightarrow> 'k \<Rightarrow> 'k" where
  "child random_split rng = snd (random_split rng)"

definition running_rng :: "('k \<Rightarrow> 'k \<times> 'k) \<Rightarrow> 'k \<Rightarrow> nat \<Rightarrow> 'k" where
  "running_rng random_split rng i = (continuation random_split ^^ i) rng"

definition layer_seed :: "('k \<Rightarrow> 'k \<times> 'k) \<Rightarrow> 'k \<Rightarrow> nat \<Rightarrow> 'k" where
  "layer_seed random_split rng i = child random_split (running_rng random_split rng i)"

section \<open>Array operations of the library\<close>

text \<open>
  Modelled from the spec: \<^verbatim>\<open>np.dot\<close> and \<^verbatim>\<open>+\<close> on arrays are \<^verbatim>\<open>jax.numpy\<close>'s and
  are not defined in the repository. The specification (4.1) describes them as
  ``ordinary matrix contraction on the trailing axis (broadcasting over all leading
  axes)''; the definitions follow the library's documented rule, of which that is the
  case of a two-dimensional second argument: a scalar argument multiplies; otherwise the
  last axis of the first argument is contracted with the second-to-last axis of the
  second (its only axis when it has one), and a length mismatch raises \<^verbatim>\<open>ValueError\<close>.
\<close>

definition np_dot :: "'a::semiring_0 ndarray \<Rightarrow> 'a ndarray \<Rightarrow> error + 'a ndarray" where
  "np_dot a w =
     (if shape a = [] then
        Inr \<lparr>shape = shape w, data = map (\<lambda>v. hd (data a) * v) (data w)\<rparr>
      else if shape w = [] then
        Inr \<lparr>shape = shape a, data = map (\<lambda>v. v * hd (data w)) (data a)\<rparr>
      else if length (shape w) = 1 then
        (let n = last (shape a);
             rows = prod_list (butlast (shape a))
         in if hd (shape w) \<noteq> n then Inl ValueError
            else Inr \<lparr>shape = butlast (shape a),
                      data = map (\<lambda>r. sum_list (map (\<lambda>k. data a ! (r * n + k) * data w ! k) [0..<n]))
                               [0..<rows]\<rparr>)
      else
        (let n = last (shape a);
             rows = prod_list (butlast (shape a));
             m = last (shape w);
             blocks = prod_list (butlast (butlast (shape w)))
         in if last (butlast (shape w)) \<noteq> n then Inl ValueError
            else Inr \<lparr>shape = butlast (shape a) @ butlast (butlast (shape w)) @ [m],
                      data = concat (map (\<lambda>r. concat (map (\<lambda>bl. map (\<lambda>j.
                               sum_list (map (\<lambda>k. data a ! (r * n + k) * data w ! ((bl * n + k) * m + j))
                                 [0..<n])) [0..<m]) [0..<blocks])) [0..<rows])\<rparr>))"

text \<open>
  Modelled from the spec: broadcasting \<^verbatim>\<open>+\<close>. Shapes are aligned at their last axes;
  two sizes are compatible when they are equal or one of them is 1; the result has the
  larger size. \<open>bcast\<close> works on reversed shapes; \<open>src\<close> maps a row-major position of
  the result to the position read in an operand.
\<close>

fun bcast :: "nat list \<Rightarrow> nat list \<Rightarrow> nat list option" where
  "bcast [] ys = Some ys"
| "bcast (x # xs) [] = Some (x # xs)"
| "bcast (x # xs) (y # ys) =
     (if x = y \<or> y = 1 then map_option ((#) x) (bcast xs ys)
      else if x = 1 then map_option ((#) y) (bcast xs ys)
      else None)"

fun src :: "nat list \<Rightarrow> nat list \<Rightarrow> nat \<Rightarrow> nat" where
  "src [] rs i = 0"
| "src (d # ds) [] i = 0"
| "src (d # ds) (r # rs) i = (if d = 1 then 0 else i mod r) + d * src ds rs (i div r)"

definition np_add :: "'a::semiring_0 ndarray \<Rightarrow> 'a ndarray \<Rightarrow> error + 'a ndarray" where
  "np_add x y =
     (case bcast (rev (shape x)) (rev (shape y)) of
        None \<Rightarrow> Inl ValueError
      | Some rs \<Rightarrow>
          Inr \<lparr>shape = rev rs,
               data = map (\<lambda>i. data x ! src (rev (shape x)) rs i + data y ! src (rev (shape y)) rs i)
                        [0..<prod_list rs]\<rparr>)"

text \<open>An elementwise function of the library (\<^verbatim>\<open>np.tanh\<close>, \<^verbatim>\<open>np.exp\<close>, negation, a
  scalar operand) keeps the shape and maps the elements.\<close>

definition np_map :: "('a \<Rightarrow> 'b) \<Rightarrow> 'a ndarray \<Rightarrow> 'b ndarray" where
  "np_map f x = \<lparr>shape = shape x, data = map f (data x)\<rparr>"

section \<open>The dense layer\<close>

text \<open>
  \<^verbatim>\<open>Dense(out_dim, W_init, b_init)\<close>. The two initialisers are arguments; their defaults
  \<^verbatim>\<open>glorot_normal()\<close> and \<^verbatim>\<open>normal()\<close> are library code outside the repository.
  \<^verbatim>\<open>
    def init_fun(rng, input_shape):
        output_shape = input_shape[:-1] + (out_dim,)
        k1, k2 = random.split(rng)
        W, b = W_init(k1, (input_shape[-1], out_dim)), b_init(k2, (out_dim,))
        return output_shape, (W, b)
  \<close>
  \<^verbatim>\<open>input_shape[-1]\<close> raises \<^verbatim>\<open>IndexError\<close> on the empty tuple, before \<^verbatim>\<open>W_init\<close> is
  called; \<^verbatim>\<open>input_shape[:-1]\<close> does not raise.
\<close>

definition Dense_init_fun ::
  "('k \<Rightarrow> 'k \<times> 'k) \<Rightarrow> ('k \<Rightarrow> int list \<Rightarrow> error + 'a ndarray) \<Rightarrow>
   ('k \<Rightarrow> int list \<Rightarrow> error + 'a ndarray) \<Rightarrow> int \<Rightarrow>
   'k \<Rightarrow> int list \<Rightarrow> error + int list \<times> 'a params" where
  "Dense_init_fun random_split W_init b_init out_dim rng input_shape =
     (let output_shape = butlast input_shape @ [out_dim] in
      case random_split rng of (k1, k2) \<Rightarrow>
        if input_shape = [] then Inl IndexError
        else (case W_init k1 [last input_shape, out_dim] of
                Inl e \<Rightarrow> Inl e
              | Inr W \<Rightarrow>
                  (case b_init k2 [out_dim] of
                     Inl e \<Rightarrow> Inl e
                   | Inr b \<Rightarrow> Inr (output_shape, DenseParams W b))))"

text \<open>
  \<^verbatim>\<open>
    def apply_fun(params, inputs, **kwargs):
        W, b = params
        return np.dot(inputs, W) + b
  \<close>
  Unpacking the empty tuple raises \<^verbatim>\<open>ValueError\<close>.
\<close>

definition Dense_apply_fun ::
  "'a::semiring_0 params \<Rightarrow> 'a ndarray \<Rightarrow> 'k option \<Rightarrow> error + 'a ndarray" where
  "Dense_apply_fun params inputs rng =
     (case params of
        EmptyParams \<Rightarrow> Inl ValueError
      | DenseParams W b \<Rightarrow>
          (case np_dot inputs W of
             Inl e \<Rightarrow> Inl e
           | Inr d \<Rightarrow> np_add d b))"

definition Dense ::
  "('k \<Rightarrow> 'k \<times> 'k) \<Rightarrow> ('k \<Rightarrow> int list \<Rightarrow> error + 'a ndarray) \<Rightarrow>
   ('k \<Rightarrow> int list \<Rightarrow> error + 'a ndarray) \<Rightarrow> int \<Rightarrow> ('k, 'a::semiring_0 params, 'a) layer" where
  "Dense random_split W_init b_init out_dim =
     \<lparr>init_fun = Dense_init_fun random_split W_init b_init out_dim,
      apply_fun = Dense_apply_fun\<rparr>"

section \<open>The notebook's own model\<close>

text \<open>
  A parameter dictionary maps a name to a value; a missing key raises \<^verbatim>\<open>KeyError\<close>.
  \<^verbatim>\<open>
    def dense(params, x):
        return np.dot(x, params["w"]) + params["b"]
  \<close>
  Python evaluates \<^verbatim>\<open>params["w"]\<close>, the product, \<^verbatim>\<open>params["b"]\<close> and the sum in
  this order, so this is the order in which the errors can occur.
\<close>

definition dense :: "(string \<rightharpoonup> 'a::semiring_0 ndarray) \<Rightarrow> 'a ndarray \<Rightarrow> error + 'a ndarray" where
  "dense params x =
     (case params ''w'' of
        None \<Rightarrow> Inl (KeyError ''w'')
      | Some w \<Rightarrow>
          (case np_dot x w of
             Inl e \<Rightarrow> Inl e
           | Inr d \<Rightarrow>
               (case params ''b'' of
                  None \<Rightarrow> Inl (KeyError ''b'')
                | Some b \<Rightarrow> np_add d b)))"

text \<open>
  \<^verbatim>\<open>
    def logistic(x):
        return 1 / (1 + np.exp(-x))
  \<close>
  on an array: four elementwise steps.
\<close>

definition logistic :: "real ndarray \<Rightarrow> real ndarray" where
  "logistic x = np_map (\<lambda>v. 1 / v) (np_map (\<lambda>v. 1 + v) (np_map exp (np_map uminus x)))"

text \<open>
  \<^verbatim>\<open>
    def nn_model(p, x):
        a1 = np.tanh(dense(p["dense1"], x))
        a2 = logistic(dense(p["dense2"], a1))
        return a2
  \<close>
\<close>

definition nn_model ::
  "(string \<rightharpoonup> (string \<rightharpoonup> real ndarray)) \<Rightarrow> real ndarray \<Rightarrow> error + real ndarray" where
  "nn_model p x =
     (case p ''dense1'' of
        None \<Rightarrow> Inl (KeyError ''dense1'')
      | Some dense1 \<Rightarrow>
          (case dense dense1 x of
             Inl e \<Rightarrow> Inl e
           | Inr z1 \<Rightarrow>
               (let a1 = np_map tanh z1 in
                case p ''dense2'' of
                  None \<Rightarrow> Inl (KeyError ''dense2'')
                | Some dense2 \<Rightarrow>
                    (case dense dense2 a1 of
                       Inl e \<Rightarrow> Inl e
                     | Inr z2 \<Rightarrow> Inr (logistic z2)))))"

text \<open>
  The model as the notebook first writes it, with the flat dictionary of the four arrays:
  \<^verbatim>\<open>
    def nn_model(p, x):
        a1 = np.tanh(np.dot(x, p['w1']) + p['b1'])
        a2 = logistic(np.dot(a1, p['w2']) + p['b2'])
        return a2
  \<close>
\<close>

definition nn_model_inlined ::
  "(string \<rightharpoonup> real ndarray) \<Rightarrow> real ndarray \<Rightarrow> error + real ndarray" where
  "nn_model_inlined p x =
     (case p ''w1'' of
        None \<Rightarrow> Inl (KeyError ''w1'')
      | Some w1 \<Rightarrow>
          (case np_dot x w1 of
             Inl e \<Rightarrow> Inl e
           | Inr d1 \<Rightarrow>
               (case p ''b1'' of
                  None \<Rightarrow> Inl (KeyError ''b1'')
                | Some b1 \<Rightarrow>
                    (case np_add d1 b1 of
                       Inl e \<Rightarrow> Inl e
                     | Inr z1 \<Rightarrow>
                         (let a1 = np_map tanh z1 in
                          case p ''w2'' of
                            None \<Rightarrow> Inl (KeyError ''w2'')
                          | Some w2 \<Rightarrow>
                              (case np_dot a1 w2 of
                                 Inl e \<Rightarrow> Inl e
                               | Inr d2 \<Rightarrow>
                                   (case p ''b2'' of
                                      None \<Rightarrow> Inl (KeyError ''b2'')
                                    | Some b2 \<Rightarrow>
                                        (case np_add d2 b2 of
                                           Inl e \<Rightarrow> Inl e
                                         | Inr z2 \<Rightarrow> Inr (logistic z2)))))))))"

section \<open>Layers without parameters\<close>

text \<open>
  Modelled from the spec: the activation layers (\<^verbatim>\<open>Tanh\<close>, \<^verbatim>\<open>Elu\<close>) are imported from
  \<^verbatim>\<open>jax.experimental.stax\<close> and not defined in the repository. The specification (4.1):
  ``stateless; init returns the same shape unchanged and an empty parameter blob; apply
  applies a fixed scalar nonlinearity independently to every element, leaving shape
  unchanged''.
\<close>

definition elementwise :: "('a \<Rightarrow> 'a) \<Rightarrow> ('k, 'a params, 'a) layer" where
  "elementwise f =
     \<lparr>init_fun = (\<lambda>rng input_shape. Inr (input_shape, EmptyParams)),
      apply_fun = (\<lambda>params inputs rng. Inr (np_map f inputs))\<rparr>"

section \<open>Initialisers, splitters and layers used as concrete inputs\<close>

text \<open>
  What the shape theorems ask of an initialiser: for a shape without negative entries it
  returns an array of exactly that shape.
\<close>

definition respects_shape :: "('k \<Rightarrow> int list \<Rightarrow> error + 'a ndarray) \<Rightarrow> bool" where
  "respects_shape init =
     (\<forall>k s. list_all (\<lambda>d. 0 \<le> d) s \<longrightarrow>
        (\<exists>a. init k s = Inr a \<and> shape a = map nat s \<and> wf_array a))"

definition zeros :: "nat list \<Rightarrow> 'a::zero ndarray" where
  "zeros s = \<lparr>shape = s, data = replicate (prod_list s) 0\<rparr>"

text \<open>An initialiser that fills with zeros and, like \<^verbatim>\<open>np.zeros\<close>, refuses a negative
  size; and one that returns a given array whatever shape it is asked for.\<close>

definition zeros_init :: "'k \<Rightarrow> int list \<Rightarrow> error + 'a::zero ndarray" where
  "zeros_init k s = (if list_all (\<lambda>d. 0 \<le> d) s then Inr (zeros (map nat s)) else Inl ValueError)"

definition preset_init :: "'a ndarray \<Rightarrow> 'k \<Rightarrow> int list \<Rightarrow> error + 'a ndarray" where
  "preset_init a k s = Inr a"

text \<open>Two splitters on numbers: the children of \<open>k\<close> in a binary tree numbered from 0,
  and doubling on the integers.\<close>

definition split_tree :: "nat \<Rightarrow> nat \<times> nat" where
  "split_tree k = (2 * k + 1, 2 * k + 2)"

definition split_tree_n :: "nat \<Rightarrow> nat \<Rightarrow> nat list" where
  "split_tree_n k n = map (\<lambda>i. n * k + i + 1) [0..<n]"

definition split_double :: "int \<Rightarrow> int \<times> int" where
  "split_double k = (2 * k, 2 * k + 1)"

definition split_double_n :: "int \<Rightarrow> nat \<Rightarrow> int list" where
  "split_double_n k n = map (\<lambda>i. int n * k + int i) [0..<n]"

text \<open>A splitter on seeds of 32 bits: the running seed counts up, wrapping around, and
  the layer receives its negation.\<close>

definition split_word :: "32 word \<Rightarrow> 32 word \<times> 32 word" where
  "split_word k = (k + 1, - k)"

definition split_word_n :: "32 word \<Rightarrow> nat \<Rightarrow> 32 word list" where
  "split_word_n k n = map (\<lambda>i. k + of_nat i) [0..<n]"

text \<open>A layer that returns the seed it is given as its parameter, and a layer whose two
  functions raise \<open>ShapeError\<close>.\<close>

definition seed_layer :: "('k, 'k, 'a) layer" where
  "seed_layer =
     \<lparr>init_fun = (\<lambda>rng input_shape. Inr (input_shape, rng)),
      apply_fun = (\<lambda>params inputs rng. Inr inputs)\<rparr>"

definition failing_layer :: "('k, 'p, 'a) layer" where
  "failing_layer =
     \<lparr>init_fun = (\<lambda>rng input_shape. Inl ShapeError),
      apply_fun = (\<lambda>params inputs rng. Inl ShapeError)\<rparr>"

section \<open>The initialisation loop in a process with global state\<close>

text \<open>
  Python code can read and write process-wide state; the notebook's own
  \<^verbatim>\<open>dense_params\<close> does so through the global generator of \<^verbatim>\<open>numpy.random\<close>:
  \<^verbatim>\<open>
    def dense_params(params, name, input_dim, output_dim):
        params[name] = dict()
        params[name]["w"] = npr.normal(size=(input_dim, output_dim))
        params[name]["b"] = npr.normal(size=(output_dim,))
        return params
  \<close>
  \<open>'g\<close> is the type of that state and \<open>npr_normal\<close> the library's generator, which
  returns an array and the advanced state.
\<close>

definition dense_params ::
  "(nat list \<Rightarrow> 'g \<Rightarrow> 'a ndarray \<times> 'g) \<Rightarrow> (string \<rightharpoonup> (string \<rightharpoonup> 'a ndarray)) \<Rightarrow> string \<Rightarrow>
   nat \<Rightarrow> nat \<Rightarrow> 'g \<Rightarrow> (string \<rightharpoonup> (string \<rightharpoonup> 'a ndarray)) \<times> 'g" where
  "dense_params npr_normal params name input_dim output_dim g =
     (case npr_normal [input_dim, output_dim] g of (w, g1) \<Rightarrow>
        (case npr_normal [output_dim] g1 of (b, g2) \<Rightarrow>
           (params(name \<mapsto> [''w'' \<mapsto> w, ''b'' \<mapsto> b]), g2)))"

text \<open>
  The loop of \<^verbatim>\<open>serial.init_fun\<close> once more, now with the process state threaded
  through every call of a layer's \<^verbatim>\<open>init_fun\<close>: the loop itself has no statement that
  touches it, and an exception leaves the state as the failing layer left it.
\<close>

fun init_loop_st ::
  "('k \<Rightarrow> 'k \<times> 'k) \<Rightarrow> ('k \<Rightarrow> int list \<Rightarrow> 'g \<Rightarrow> (error + int list \<times> 'p) \<times> 'g) list \<Rightarrow>
   'k \<Rightarrow> int list \<Rightarrow> 'p list \<Rightarrow> 'g \<Rightarrow> (error + int list \<times> 'p list) \<times> 'g" where
  "init_loop_st random_split [] rng input_shape params g = (Inr (input_shape, params), g)"
| "init_loop_st random_split (f # fs) rng input_shape params g =
     (case random_split rng of (rng', layer_rng) \<Rightarrow>
        (case f layer_rng input_shape g of
           (Inl e, g') \<Rightarrow> (Inl e, g')
         | (Inr (input_shape', param), g') \<Rightarrow>
             init_loop_st random_split fs rng' input_shape' (params @ [param]) g'))"

definition serial_init_fun_st ::
  "('k \<Rightarrow> 'k \<times> 'k) \<Rightarrow> ('k \<Rightarrow> int list \<Rightarrow> 'g \<Rightarrow> (error + int list \<times> 'p) \<times> 'g) list \<Rightarrow>
   'k \<Rightarrow> int list \<Rightarrow> 'g \<Rightarrow> (error + int list \<times> 'p list) \<times> 'g" where
  "serial_init_fun_st random_split init_funs rng input_shape g =
     init_loop_st random_split init_funs rng input_shape [] g"

text \<open>
  A layer's \<^verbatim>\<open>init_fun\<close> keeps the layer contract of the specification (4.1) when its
  result does not depend on the process state and it leaves that state as it found it.
  \<open>pure_init\<close> turns a function of the seed and the shape alone into such an
  \<^verbatim>\<open>init_fun\<close>.
\<close>

definition stateless :: "('k \<Rightarrow> int list \<Rightarrow> 'g \<Rightarrow> 'r \<times> 'g) \<Rightarrow> bool" where
  "stateless f = (\<forall>k s g g'. fst (f k s g) = fst (f k s g') \<and> snd (f k s g) = g)"

definition pure_init :: "('k \<Rightarrow> int list \<Rightarrow> 'r) \<Rightarrow> 'k \<Rightarrow> int list \<Rightarrow> 'g \<Rightarrow> 'r \<times> 'g" where
  "pure_init f k s g = (f k s, g)"

text \<open>A generator whose state is a counter, and an \<^verbatim>\<open>init_fun\<close> that draws its parameter
  from it as \<^verbatim>\<open>dense_params\<close> does.\<close>

definition counter_normal :: "nat list \<Rightarrow> nat \<Rightarrow> real ndarray \<times> nat" where
  "counter_normal s g = (\<lparr>shape = s, data = replicate (prod_list s) (real g)\<rparr>, Suc g)"

definition global_init :: "'k \<Rightarrow> int list \<Rightarrow> nat \<Rightarrow> (error + int list \<times> real ndarray) \<times> nat" where
  "global_init k s g = (case counter_normal (map nat s) g of (a, g') \<Rightarrow> (Inr (s, a), g'))"

text \<open>Two such functions, made from the \<^verbatim>\<open>init_fun\<close> of a dense layer and of an
  activation layer.\<close>

definition example_init_funs ::
  "(nat \<Rightarrow> int list \<Rightarrow> nat \<Rightarrow> (error + int list \<times> real params) \<times> nat) list" where
  "example_init_funs =
     [pure_init (init_fun (Dense split_tree zeros_init zeros_init 20)),
      pure_init (init_fun (elementwise tanh))]"

text \<open>The same four small arrays as a nested and as a flat parameter dictionary.\<close>

definition example_nested :: "string \<rightharpoonup> (string \<rightharpoonup> real ndarray)" where
  "example_nested =
     [''dense1'' \<mapsto> [''w'' \<mapsto> \<lparr>shape = [2, 1], data = [1, 1]\<rparr>, ''b'' \<mapsto> \<lparr>shape = [1], data = [0]\<rparr>],
      ''dense2'' \<mapsto> [''w'' \<mapsto> \<lparr>shape = [1, 1], data = [2]\<rparr>, ''b'' \<mapsto> \<lparr>shape = [1], data = [0]\<rparr>]]"

definition example_flat :: "string \<rightharpoonup> real ndarray" where
  "example_flat =
     [''w1'' \<mapsto> \<lparr>shape = [2, 1], data = [1, 1]\<rparr>, ''b1'' \<mapsto> \<lparr>shape = [1], data = [0]\<rparr>,
      ''w2'' \<mapsto> \<lparr>shape = [1, 1], data = [2]\<rparr>, ''b2'' \<mapsto> \<lparr>shape = [1], data = [0]\<rparr>]"

text \<open>During the first \<open>n\<close> iterations the running seed does not come back to the
  seed the loop started from.\<close>

definition no_return_within :: "('k \<Rightarrow> 'k \<times> 'k) \<Rightarrow> 'k \<Rightarrow> nat \<Rightarrow> bool" where
  "no_return_within random_split rng n =
     (\<forall>m. 0 < m \<and> m < n \<longrightarrow> running_rng random_split rng m \<noteq> rng)"

section \<open>Seeds and the initialisation loop\<close>

lemma running_rng_0: "running_rng sp rng 0 = rng"
  by (simp add: running_rng_def)

lemma running_rng_Suc: "running_rng sp rng (Suc i) = running_rng sp (continuation sp rng) i"
  by (simp add: running_rng_def funpow_swap1)

lemma layer_seed_0: "layer_seed sp rng 0 = snd (sp rng)"
  by (simp add: layer_seed_def running_rng_0 child_def)

lemma layer_seed_Suc: "layer_seed sp rng (Suc i) = layer_seed sp (fst (sp rng)) i"
  by (simp add: layer_seed_def running_rng_Suc continuation_def)

text \<open>One iteration of the loop, with the two seeds of the split written as projections.\<close>

lemma init_loop_Cons:
  "init_loop sp (f # fs) rng s acc =
     (case f (snd (sp rng)) s of Inl e \<Rightarrow> Inl e
      | Inr r \<Rightarrow> init_loop sp fs (fst (sp rng)) (fst r) (acc @ [snd r]))"
  by (simp add: case_prod_beta split: sum.splits)

declare init_loop.simps(2) [simp del]

text \<open>The loop only appends: the result extends the accumulator by one entry per layer.\<close>

lemma init_loop_prefix:
  "init_loop sp fs rng s acc = Inr (s', ps) \<Longrightarrow> \<exists>qs. ps = acc @ qs \<and> length qs = length fs"
proof (induction fs arbitrary: rng s acc)
  case Nil
  then show ?case by simp
next
  case (Cons f fs)
  from Cons.prems obtain s1 p where
    step: "f (snd (sp rng)) s = Inr (s1, p)" and
    rest: "init_loop sp fs (fst (sp rng)) s1 (acc @ [p]) = Inr (s', ps)"
    by (auto simp: init_loop_Cons split: sum.splits)
  from Cons.IH[OF rest] obtain qs where "ps = (acc @ [p]) @ qs" "length qs = length fs"
    by blast
  then have "ps = acc @ (p # qs) \<and> length (p # qs) = length (f # fs)" by simp
  then show ?case by blast
qed

text \<open>Running the loop over \<open>fs @ gs\<close> is running it over \<open>fs\<close> and, when that returns,
  over \<open>gs\<close> from the running seed reached.\<close>

lemma init_loop_append:
  "init_loop sp (fs @ gs) rng s acc =
     (case init_loop sp fs rng s acc of Inl e \<Rightarrow> Inl e
      | Inr r \<Rightarrow> init_loop sp gs (running_rng sp rng (length fs)) (fst r) (snd r))"
proof (induction fs arbitrary: rng s acc)
  case Nil
  then show ?case by (simp add: running_rng_0)
next
  case (Cons f fs)
  have "running_rng sp rng (length (f # fs)) = running_rng sp (fst (sp rng)) (length fs)"
    by (simp add: running_rng_Suc continuation_def)
  then show ?case
    by (cases "f (snd (sp rng)) s") (simp_all add: init_loop_Cons Cons.IH cong: sum.case_cong)
qed

lemma serial_Inr:
  "layers \<noteq> [] \<Longrightarrow> serial sp spn layers =
     Inr \<lparr>init_fun = serial_init_fun sp (map init_fun layers),
          apply_fun = serial_apply_fun spn (length layers) (map apply_fun layers)\<rparr>"
  by (simp add: serial_def)

lemma serial_init_nonempty:
  "layers \<noteq> [] \<Longrightarrow>
   serial_init sp spn layers rng s = init_loop sp (map init_fun layers) rng s []"
  by (simp add: serial_init_def serial_Inr serial_init_fun_def)

lemma serial_apply_nonempty:
  "layers \<noteq> [] \<Longrightarrow> serial_apply sp spn layers params x rng =
     apply_loop (zip (map apply_fun layers) (zip params (apply_rngs spn (length layers) rng))) x"
  by (simp add: serial_apply_def serial_Inr serial_apply_fun_def)

section \<open>Initialising a dense layer\<close>

lemma respects_shapeD:
  "respects_shape init \<Longrightarrow> list_all (\<lambda>d. 0 \<le> d) s \<Longrightarrow>
   \<exists>a. init k s = Inr a \<and> shape a = map nat s \<and> wf_array a"
  by (simp add: respects_shape_def)

lemma zeros_init_respects: "respects_shape zeros_init"
  by (simp add: respects_shape_def zeros_init_def zeros_def wf_array_def)

lemma Dense_init_fun_Inr:
  assumes "respects_shape W_init" "respects_shape b_init" "0 \<le> in_dim" "0 \<le> out_dim"
  shows "\<exists>W b. Dense_init_fun sp W_init b_init out_dim rng (lead @ [in_dim])
                 = Inr (lead @ [out_dim], DenseParams W b) \<and>
               W_init (fst (sp rng)) [in_dim, out_dim] = Inr W \<and>
               b_init (snd (sp rng)) [out_dim] = Inr b \<and>
               shape W = [nat in_dim, nat out_dim] \<and> shape b = [nat out_dim]"
proof -
  from assms obtain W where
    W: "W_init (fst (sp rng)) [in_dim, out_dim] = Inr W" "shape W = [nat in_dim, nat out_dim]"
    using respects_shapeD[of W_init "[in_dim, out_dim]" "fst (sp rng)"] by auto
  from assms obtain b where
    b: "b_init (snd (sp rng)) [out_dim] = Inr b" "shape b = [nat out_dim]"
    using respects_shapeD[of b_init "[out_dim]" "snd (sp rng)"] by auto
  show ?thesis using W b by (simp add: Dense_init_fun_def case_prod_beta)
qed

text \<open>
  C5. For every seed \<open>rng\<close> and every input shape \<open>lead @ [in_dim]\<close> with a concrete
  trailing dimension, \<open>Dense(out_dim)\<close>'s \<open>init_fun\<close> returns the input shape with its
  trailing dimension replaced by \<open>out_dim\<close>, together with the pair \<open>(W, b)\<close>: \<open>W\<close> is what
  \<open>W_init\<close> draws for shape \<open>(in_dim, out_dim)\<close> from the first seed \<open>k1\<close> of the one split
  of \<open>rng\<close>, \<open>b\<close> is what \<open>b_init\<close> draws for shape \<open>(out_dim,)\<close> from the second seed
  \<open>k2\<close> of that split, and the two arrays have these shapes. The two seeds are distinct
  when the splitter returns two different seeds for \<open>rng\<close>. The initialisers are assumed
  to return arrays of the shape they are asked for.
\<close>

theorem Dense_init_shapes:
  assumes "respects_shape W_init" and "respects_shape b_init"
    and "0 \<le> in_dim" and "0 \<le> out_dim"
  shows "\<exists>k1 k2 W b.
           random_split rng = (k1, k2) \<and>
           Dense_init_fun random_split W_init b_init out_dim rng (lead @ [in_dim])
             = Inr (lead @ [out_dim], DenseParams W b) \<and>
           W_init k1 [in_dim, out_dim] = Inr W \<and> b_init k2 [out_dim] = Inr b \<and>
           shape W = [nat in_dim, nat out_dim] \<and> shape b = [nat out_dim] \<and>
           (fst (random_split rng) \<noteq> snd (random_split rng) \<longrightarrow> k1 \<noteq> k2)"
proof -
  from Dense_init_fun_Inr[OF assms, of random_split rng lead] obtain W b where
    "Dense_init_fun random_split W_init b_init out_dim rng (lead @ [in_dim])
       = Inr (lead @ [out_dim], DenseParams W b)"
    "W_init (fst (random_split rng)) [in_dim, out_dim] = Inr W"
    "b_init (snd (random_split rng)) [out_dim] = Inr b"
    "shape W = [nat in_dim, nat out_dim]" "shape b = [nat out_dim]"
    by blast
  then show ?thesis
    by (intro exI[of _ "fst (random_split rng)"] exI[of _ "snd (random_split rng)"]
        exI[of _ W] exI[of _ b]) simp
qed

theorem Dense_init_shapes_witness:
  "respects_shape (zeros_init :: nat \<Rightarrow> int list \<Rightarrow> error + real ndarray) \<and>
   (0::int) \<le> 41 \<and> (0::int) \<le> 20 \<and> fst (split_tree 42) \<noteq> snd (split_tree 42) \<and>
   (\<exists>k1 k2 W b.
      split_tree 42 = (k1, k2) \<and>
      Dense_init_fun split_tree zeros_init zeros_init 20 42 ([- 1] @ [41])
        = Inr ([- 1] @ [20], DenseParams W b) \<and>
      zeros_init k1 [41, 20] = Inr (W :: real ndarray) \<and> zeros_init k2 [20] = Inr b \<and>
      shape W = [nat 41, nat 20] \<and> shape b = [nat 20] \<and> k1 \<noteq> k2)"
proof -
  have d: "fst (split_tree 42) \<noteq> snd (split_tree 42)"
    by (simp add: split_tree_def)
  from Dense_init_shapes[OF zeros_init_respects zeros_init_respects, of 41 20 split_tree 42 "[- 1]"]
  obtain k1 k2 and W b :: "real ndarray" where
    r: "split_tree 42 = (k1, k2)"
      "Dense_init_fun split_tree zeros_init zeros_init 20 42 ([- 1] @ [41])
        = Inr ([- 1] @ [20], DenseParams W b)"
      "zeros_init k1 [41, 20] = Inr W" "zeros_init k2 [20] = Inr b"
      "shape W = [nat 41, nat 20]" "shape b = [nat 20]"
      "fst (split_tree 42) \<noteq> snd (split_tree 42) \<longrightarrow> k1 \<noteq> k2"
    by auto
  from r(7) d have "k1 \<noteq> k2" by (rule mp)
  with r d zeros_init_respects show ?thesis
    by (intro conjI exI[of _ k1] exI[of _ k2] exI[of _ W] exI[of _ b]) simp_all
qed

text \<open>
  C2, as the code has it. \<open>Dense(out_dim)\<close>'s \<open>init_fun\<close> makes no check of the trailing
  dimension. For an input shape that ends in the wildcard \<open>-1\<close> it asks \<open>W_init\<close> for the
  shape \<open>(-1, out_dim)\<close> and \<open>b_init\<close> for \<open>(out_dim,)\<close>; it raises exactly when one of the
  two initialisers raises, with that initialiser's error, and otherwise returns the output
  shape and the pair \<open>(W, b)\<close>.
\<close>

theorem Dense_init_forwards_wildcard:
  "Dense_init_fun random_split W_init b_init out_dim rng (lead @ [- 1]) =
     (case W_init (fst (random_split rng)) [- 1, out_dim] of
        Inl e \<Rightarrow> Inl e
      | Inr W \<Rightarrow>
          (case b_init (snd (random_split rng)) [out_dim] of
             Inl e \<Rightarrow> Inl e
           | Inr b \<Rightarrow> Inr (lead @ [out_dim], DenseParams W b)))"
  by (simp add: Dense_init_fun_def case_prod_beta)

text \<open>
  The claim C2 as stated fails: with initialisers that return given arrays,
  \<open>Dense(20)\<close> initialised on the shape \<open>(3, -1)\<close> raises nothing and returns parameters.
\<close>

theorem Dense_init_wildcard_counterexample:
  "Dense_init_fun split_tree (preset_init (zeros [1, 20])) (preset_init (zeros [20])) 20 42 [3, - 1]
     = Inr ([3, 20], DenseParams (zeros [1, 20] :: real ndarray) (zeros [20]))"
  by (simp add: Dense_init_fun_def preset_init_def split_tree_def)

section \<open>Shape propagation through a composite\<close>

lemma serial_init_four_layers:
  assumes "respects_shape W_init1" and "respects_shape b_init1"
    and "respects_shape W_init2" and "respects_shape b_init2"
  shows "\<exists>W1 b1 W2 b2.
    serial_init random_split random_split_n
      [Dense random_split W_init1 b_init1 20, elementwise f,
       Dense random_split W_init2 b_init2 1, elementwise g] rng [batch, 41]
      = Inr ([batch, 1], [DenseParams W1 b1, EmptyParams, DenseParams W2 b2, EmptyParams]) \<and>
    shape W1 = [41, 20] \<and> shape b1 = [20] \<and> shape W2 = [20, 1] \<and> shape b2 = [1]"
proof -
  let ?r1 = "snd (random_split rng)"
  let ?r3 = "snd (random_split (fst (random_split (fst (random_split rng)))))"
  from Dense_init_fun_Inr[OF assms(1,2), of 41 20 random_split ?r1 "[batch]"] obtain W1 b1 where
    d1: "Dense_init_fun random_split W_init1 b_init1 20 ?r1 [batch, 41]
           = Inr ([batch, 20], DenseParams W1 b1)"
    and s1: "shape W1 = [41, 20]" "shape b1 = [20]" by auto
  from Dense_init_fun_Inr[OF assms(3,4), of 20 1 random_split ?r3 "[batch]"] obtain W2 b2 where
    d2: "Dense_init_fun random_split W_init2 b_init2 1 ?r3 [batch, 20]
           = Inr ([batch, 1], DenseParams W2 b2)"
    and s2: "shape W2 = [20, 1]" "shape b2 = [1]" by auto
  have "serial_init random_split random_split_n
      [Dense random_split W_init1 b_init1 20, elementwise f,
       Dense random_split W_init2 b_init2 1, elementwise g] rng [batch, 41]
      = Inr ([batch, 1], [DenseParams W1 b1, EmptyParams, DenseParams W2 b2, EmptyParams])"
    using d1 d2 by (simp add: serial_init_nonempty init_loop_Cons Dense_def elementwise_def)
  then show ?thesis using s1 s2 by blast
qed

text \<open>
  C4. For the layer sequence \<open>[Dense(20), activation, Dense(1), activation]\<close> the
  composite's \<open>init_fun\<close> on the input shape \<open>(batch, 41)\<close> returns the output shape
  \<open>(batch, 1)\<close> and a parameter list with one entry per layer, in the order of the layers:
  \<open>(W1, b1)\<close> with shapes \<open>(41, 20)\<close> and \<open>(20,)\<close>, the empty parameters, \<open>(W2, b2)\<close> with
  shapes \<open>(20, 1)\<close> and \<open>(1,)\<close>, the empty parameters. The initialisers are assumed to
  return arrays of the shape they are asked for; \<open>batch\<close> is any integer, the wildcard
  included.
\<close>

theorem serial_init_shape_propagation:
  assumes "respects_shape W_init1" and "respects_shape b_init1"
    and "respects_shape W_init2" and "respects_shape b_init2"
  shows "\<exists>W1 b1 W2 b2.
    serial_init random_split random_split_n
      [Dense random_split W_init1 b_init1 20, elementwise f,
       Dense random_split W_init2 b_init2 1, elementwise g] rng [batch, 41]
      = Inr ([batch, 1], [DenseParams W1 b1, EmptyParams, DenseParams W2 b2, EmptyParams]) \<and>
    shape W1 = [41, 20] \<and> shape b1 = [20] \<and> shape W2 = [20, 1] \<and> shape b2 = [1]"
  using assms by (rule serial_init_four_layers)

theorem serial_init_shape_propagation_witness:
  "respects_shape (zeros_init :: nat \<Rightarrow> int list \<Rightarrow> error + real ndarray) \<and>
   (\<exists>W1 b1 W2 b2.
      serial_init split_tree split_tree_n
        [Dense split_tree zeros_init zeros_init 20, elementwise tanh,
         Dense split_tree zeros_init zeros_init 1, elementwise tanh] 42 [- 1, 41]
        = Inr ([- 1, 1], [DenseParams W1 b1, EmptyParams, DenseParams (W2 :: real ndarray) b2, EmptyParams]) \<and>
      shape W1 = [41, 20] \<and> shape b1 = [20] \<and> shape W2 = [20, 1] \<and> shape b2 = [1])"
  using serial_init_shape_propagation[OF zeros_init_respects zeros_init_respects
      zeros_init_respects zeros_init_respects, of split_tree split_tree_n tanh tanh 42 "- 1"]
    zeros_init_respects
  by simp

section \<open>The composite of no layers\<close>

text \<open>
  C9, as the code has it. For the empty layer sequence \<open>serial\<close> returns no layer: the
  unpacking of \<open>zip(*layers)\<close> into \<open>init_funs, apply_funs\<close> raises \<open>ValueError\<close>, so
  neither an \<open>init_fun\<close> nor an \<open>apply_fun\<close> exists to be called. The two loops, run over
  no layer, would return the input shape with an empty parameter list and the input
  unchanged.
\<close>

theorem serial_empty_raises:
  "serial random_split random_split_n [] = Inl ValueError \<and>
   serial_init random_split random_split_n [] rng input_shape = Inl ValueError \<and>
   serial_apply random_split random_split_n [] params inputs rng' = Inl ValueError \<and>
   init_loop random_split [] rng input_shape [] = Inr (input_shape, []) \<and>
   apply_loop [] inputs = Inr inputs"
  by (simp add: serial_def serial_init_def serial_apply_def)

text \<open>
  The claim C9 as stated fails: building the composite of no layers and calling its
  \<open>init_fun\<close> on the shape \<open>(-1, 41)\<close> raises \<open>ValueError\<close> instead of returning that shape
  and an empty parameter list.
\<close>

theorem serial_empty_counterexample:
  "serial_init split_tree split_tree_n ([] :: (nat, real params, real) layer list) 42 [- 1, 41]
     = Inl ValueError"
  by (simp add: serial_init_def serial_def)

section \<open>Errors of a layer inside a composite\<close>

lemma init_loop_error:
  "init_loop sp pre rng s [] = Inr (s1, ps) \<Longrightarrow>
   f (layer_seed sp rng (length pre)) s1 = Inl e \<Longrightarrow>
   init_loop sp (pre @ f # post) rng s [] = Inl e"
  by (simp add: init_loop_append init_loop_Cons layer_seed_def child_def)

lemma apply_loop_error:
  "length pre < length Z \<Longrightarrow> apply_loop (zip pre Z) x = Inr x1 \<Longrightarrow>
   a (fst (Z ! length pre)) x1 (snd (Z ! length pre)) = Inl e \<Longrightarrow>
   apply_loop (zip (pre @ a # post) Z) x = Inl e"
proof (induction pre arbitrary: Z x)
  case Nil
  then obtain z Z' where Z: "Z = z # Z'" by (cases Z) auto
  with Nil show ?case by (cases z) simp
next
  case (Cons f pre)
  then obtain z Z' where Z: "Z = z # Z'" by (cases Z) auto
  obtain p r where z: "z = (p, r)" by (cases z)
  from Cons.prems(2) Z z obtain y where
    y: "f p x r = Inr y" and rest: "apply_loop (zip pre Z') y = Inr x1"
    by (auto split: sum.splits)
  from Cons.prems(1,3) Z have "length pre < length Z'"
    "a (fst (Z' ! length pre)) x1 (snd (Z' ! length pre)) = Inl e" by simp_all
  from Cons.IH[OF this(1) rest this(2)] show ?case using Z z y by simp
qed

text \<open>
  C1, as the code has it. \<open>serial\<close> has no \<^verbatim>\<open>try\<close>: when the layers before layer \<open>l\<close>
  have run without error and the \<open>init_fun\<close> (the \<open>apply_fun\<close>) of \<open>l\<close> raises an error
  \<open>e\<close>, a \<open>ShapeError\<close> for instance, the composite's \<open>init_fun\<close> (\<open>apply_fun\<close>) raises that
  same \<open>e\<close>: unwrapped and without the position of \<open>l\<close>. The result is the error, so no
  layer after \<open>l\<close> has run and nothing has been tried again. In \<open>apply_fun\<close> the layer
  must have a parameter and an \<open>rng\<close> entry to be reached, since the loop runs over the
  \<open>zip\<close> of the three sequences.
\<close>

theorem serial_propagates_layer_error:
  "(init_loop random_split (map init_fun pre) rng s [] = Inr (s1, ps) \<and>
    init_fun l (layer_seed random_split rng (length pre)) s1 = Inl e
    \<longrightarrow> serial_init random_split random_split_n (pre @ l # post) rng s = Inl e) \<and>
   (length pre < length params \<and>
    length pre < length (apply_rngs random_split_n (length (pre @ l # post)) r) \<and>
    apply_loop (zip (map apply_fun pre)
      (zip params (apply_rngs random_split_n (length (pre @ l # post)) r))) x = Inr x1 \<and>
    apply_fun l (params ! length pre) x1
      (apply_rngs random_split_n (length (pre @ l # post)) r ! length pre) = Inl e'
    \<longrightarrow> serial_apply random_split random_split_n (pre @ l # post) params x r = Inl e')"
proof (intro conjI impI)
  assume "init_loop random_split (map init_fun pre) rng s [] = Inr (s1, ps) \<and>
    init_fun l (layer_seed random_split rng (length pre)) s1 = Inl e"
  then show "serial_init random_split random_split_n (pre @ l # post) rng s = Inl e"
    using init_loop_error[of random_split "map init_fun pre" rng s s1 ps "init_fun l" e
        "map init_fun post"]
    by (simp add: serial_init_nonempty)
next
  let ?R = "apply_rngs random_split_n (length (pre @ l # post)) r"
  assume a: "length pre < length params \<and> length pre < length ?R \<and>
    apply_loop (zip (map apply_fun pre) (zip params ?R)) x = Inr x1 \<and>
    apply_fun l (params ! length pre) x1 (?R ! length pre) = Inl e'"
  then have "apply_loop (zip (map apply_fun pre @ apply_fun l # map apply_fun post)
      (zip params ?R)) x = Inl e'"
    by (intro apply_loop_error[where ?x1.0 = x1]) simp_all
  then show "serial_apply random_split random_split_n (pre @ l # post) params x r = Inl e'"
    by (simp add: serial_apply_nonempty)
qed

theorem serial_propagates_layer_error_witness:
  "init_loop split_tree (map init_fun [seed_layer :: (nat, nat, real) layer]) 42 [3] []
     = Inr ([3], [86]) \<and>
   init_fun (failing_layer :: (nat, nat, real) layer)
     (layer_seed split_tree 42 (length [seed_layer :: (nat, nat, real) layer])) [3]
     = Inl ShapeError \<and>
   serial_init split_tree split_tree_n
     ([seed_layer] @ failing_layer # [seed_layer :: (nat, nat, real) layer]) 42 [3]
     = Inl ShapeError \<and>
   length [seed_layer :: (nat, nat, real) layer] < length [1, 2, 3 :: nat] \<and>
   length [seed_layer :: (nat, nat, real) layer]
     < length (apply_rngs split_tree_n
         (length ([seed_layer] @ failing_layer # [seed_layer :: (nat, nat, real) layer])) None) \<and>
   apply_loop (zip (map apply_fun [seed_layer :: (nat, nat, real) layer])
     (zip [1, 2, 3] (apply_rngs split_tree_n
         (length ([seed_layer] @ failing_layer # [seed_layer :: (nat, nat, real) layer])) None)))
     (zeros [3]) = Inr (zeros [3]) \<and>
   apply_fun (failing_layer :: (nat, nat, real) layer)
     ([1, 2, 3] ! length [seed_layer :: (nat, nat, real) layer]) (zeros [3])
     (apply_rngs split_tree_n
         (length ([seed_layer] @ failing_layer # [seed_layer :: (nat, nat, real) layer])) None
       ! length [seed_layer :: (nat, nat, real) layer]) = Inl ShapeError \<and>
   serial_apply split_tree split_tree_n
     ([seed_layer] @ failing_layer # [seed_layer :: (nat, nat, real) layer]) [1, 2, 3]
     (zeros [3]) None = Inl ShapeError"
  using serial_propagates_layer_error[of split_tree "[seed_layer :: (nat, nat, real) layer]" 42
      "[3]" "[3]" "[86]" failing_layer ShapeError split_tree_n "[seed_layer]" "[1, 2, 3]" None
      "zeros [3]" "zeros [3]" ShapeError]
  by (simp add: init_loop_Cons seed_layer_def failing_layer_def split_tree_def apply_rngs_def)

text \<open>
  The claim C1 as stated fails: a composite of one layer whose functions raise
  \<open>ShapeError\<close> lets the bare \<open>ShapeError\<close> out of its \<open>init_fun\<close> and of its \<open>apply_fun\<close>;
  no \<open>CompositionError\<close> is raised.
\<close>

theorem serial_bare_error_counterexample:
  "serial_init split_tree split_tree_n [failing_layer :: (nat, nat, real) layer] 42 [3]
     = Inl ShapeError \<and>
   serial_init split_tree split_tree_n [failing_layer :: (nat, nat, real) layer] 42 [3]
     \<noteq> Inl (CompositionError 0 ShapeError) \<and>
   serial_apply split_tree split_tree_n [failing_layer :: (nat, nat, real) layer] [7] (zeros [3]) None
     = Inl ShapeError \<and>
   serial_apply split_tree split_tree_n [failing_layer :: (nat, nat, real) layer] [7] (zeros [3]) None
     \<noteq> Inl (CompositionError 0 ShapeError)"
  by (simp add: serial_init_nonempty serial_apply_nonempty init_loop_Cons failing_layer_def
      apply_rngs_def)

section \<open>The seeds the layers receive\<close>

text \<open>When the loop returns, layer \<open>i\<close> returned its result on the seed \<open>layer_seed i\<close> and
  on the shape its predecessor returned.\<close>

lemma init_loop_schedule:
  "init_loop sp fs rng s acc = Inr (s', ps) \<Longrightarrow>
   \<exists>shapes. length shapes = Suc (length fs) \<and> shapes ! 0 = s \<and> shapes ! length fs = s' \<and>
     (\<forall>i<length fs. (fs ! i) (layer_seed sp rng i) (shapes ! i)
        = Inr (shapes ! Suc i, ps ! (length acc + i)))"
proof (induction fs arbitrary: rng s acc)
  case Nil
  then have "length [s] = Suc 0 \<and> [s] ! 0 = s \<and> [s] ! 0 = s'" by simp
  then show ?case by (intro exI[of _ "[s]"]) simp
next
  case (Cons f fs)
  from Cons.prems obtain s1 p where
    step: "f (snd (sp rng)) s = Inr (s1, p)" and
    rest: "init_loop sp fs (fst (sp rng)) s1 (acc @ [p]) = Inr (s', ps)"
    by (auto simp: init_loop_Cons split: sum.splits)
  from init_loop_prefix[OF rest] obtain qs where ps: "ps = (acc @ [p]) @ qs" by blast
  from Cons.IH[OF rest] obtain shapes where
    sh: "length shapes = Suc (length fs)" "shapes ! 0 = s1" "shapes ! length fs = s'"
      "\<forall>i<length fs. (fs ! i) (layer_seed sp (fst (sp rng)) i) (shapes ! i)
          = Inr (shapes ! Suc i, ps ! (length (acc @ [p]) + i))"
    by blast
  have "\<forall>i<length (f # fs). ((f # fs) ! i) (layer_seed sp rng i) ((s # shapes) ! i)
          = Inr ((s # shapes) ! Suc i, ps ! (length acc + i))"
  proof (intro allI impI)
    fix i assume i: "i < length (f # fs)"
    show "((f # fs) ! i) (layer_seed sp rng i) ((s # shapes) ! i)
          = Inr ((s # shapes) ! Suc i, ps ! (length acc + i))"
    proof (cases i)
      case 0
      then show ?thesis using step sh(2) ps by (simp add: layer_seed_0 nth_append)
    next
      case (Suc j)
      then show ?thesis using sh(4) i by (simp add: layer_seed_Suc)
    qed
  qed
  then show ?case using sh(1,3) by (intro exI[of _ "s # shapes"]) simp
qed

lemma running_rng_add: "running_rng sp rng (i + d) = running_rng sp (running_rng sp rng d) i"
  by (simp add: running_rng_def funpow_add)

lemma running_rng_inj_on:
  assumes c: "inj (continuation sp)" and nr: "no_return_within sp rng n"
  shows "inj_on (running_rng sp rng) {..<n}"
proof (rule inj_onI)
  fix i j assume i: "i \<in> {..<n}" and j: "j \<in> {..<n}"
    and eq: "running_rng sp rng i = running_rng sp rng j"
  have aux: "a = b"
    if le: "a \<le> b" and b: "b < n" and e: "running_rng sp rng a = running_rng sp rng b" for a b
  proof -
    have "running_rng sp rng b = running_rng sp (running_rng sp rng (b - a)) a"
      using le running_rng_add[of sp rng a "b - a"] by simp
    with e have "(continuation sp ^^ a) rng = (continuation sp ^^ a) (running_rng sp rng (b - a))"
      by (simp add: running_rng_def)
    moreover from c have "inj (continuation sp ^^ a)" by (rule inj_fn)
    ultimately have "rng = running_rng sp rng (b - a)"
      by (rule injD[rotated])
    moreover from nr b have "0 < b - a \<longrightarrow> running_rng sp rng (b - a) \<noteq> rng"
      by (simp add: no_return_within_def)
    ultimately have "\<not> 0 < b - a" by auto
    with le show ?thesis by simp
  qed
  show "i = j"
  proof (cases "i \<le> j")
    case True then show ?thesis using aux[of i j] eq j by simp
  next
    case False then show ?thesis using aux[of j i] eq i by simp
  qed
qed

lemma layer_seed_inj_on:
  assumes "inj (continuation sp)" "inj (child sp)" "no_return_within sp rng n"
  shows "inj_on (layer_seed sp rng) {..<n}"
proof -
  have "layer_seed sp rng = child sp \<circ> running_rng sp rng"
    by (auto simp: layer_seed_def)
  moreover have "inj_on (running_rng sp rng) {..<n}" using assms(1,3) by (rule running_rng_inj_on)
  moreover have "inj_on (child sp) (running_rng sp rng ` {..<n})"
    using assms(2) by (rule inj_on_subset) simp
  ultimately show ?thesis by (simp add: comp_inj_on)
qed

lemma inj_continuation_split_word: "inj (continuation split_word)"
  by (simp add: inj_def continuation_def split_word_def)

lemma inj_child_split_word: "inj (child split_word)"
  by (simp add: inj_def child_def split_word_def)

lemma no_return_within_split_word: "no_return_within split_word 5 2"
  unfolding no_return_within_def
proof (intro allI impI)
  fix m :: nat assume "0 < m \<and> m < 2"
  then have "m = 1" by simp
  then show "running_rng split_word 5 m \<noteq> 5"
    by (simp add: running_rng_def continuation_def split_word_def)
qed

text \<open>
  C8, as the code has it. When the composite's \<open>init_fun\<close> returns, it has split the
  running seed once per layer: layer \<open>i\<close> was initialised on \<open>layer_seed i\<close>, the second
  seed of the split of the running seed of iteration \<open>i\<close>, and the first seed of that
  split was carried to iteration \<open>i + 1\<close>; the parameter list has one entry per layer.
  If both components of the splitter are injective and, during the iterations of this
  call, the running seed does not come back to the seed the call started from, no two
  layers receive the same seed. The seed type may be finite.
\<close>

theorem serial_init_seed_schedule:
  "serial_init random_split random_split_n layers rng s = Inr (s', ps) \<longrightarrow>
     length ps = length layers \<and>
     (\<exists>shapes. length shapes = Suc (length layers) \<and> shapes ! 0 = s \<and>
        shapes ! length layers = s' \<and>
        (\<forall>i<length layers.
           init_fun (layers ! i) (layer_seed random_split rng i) (shapes ! i)
             = Inr (shapes ! Suc i, ps ! i))) \<and>
     (inj (continuation random_split) \<and> inj (child random_split) \<and>
      no_return_within random_split rng (length layers)
        \<longrightarrow> distinct (map (layer_seed random_split rng) [0..<length layers]))"
proof (intro impI conjI)
  assume run: "serial_init random_split random_split_n layers rng s = Inr (s', ps)"
  then have ne: "layers \<noteq> []" by (auto simp: serial_init_def serial_def)
  have loop: "init_loop random_split (map init_fun layers) rng s [] = Inr (s', ps)"
    using run serial_init_nonempty[OF ne, of random_split random_split_n rng s] by simp
  from init_loop_prefix[OF loop] show "length ps = length layers" by auto
  from init_loop_schedule[OF loop] obtain shapes where
    sh: "length shapes = Suc (length layers)" "shapes ! 0 = s" "shapes ! length layers = s'"
    and calls: "\<forall>i<length layers.
      (map init_fun layers ! i) (layer_seed random_split rng i) (shapes ! i)
        = Inr (shapes ! Suc i, ps ! i)"
    by auto
  from calls have "\<forall>i<length layers.
      init_fun (layers ! i) (layer_seed random_split rng i) (shapes ! i)
        = Inr (shapes ! Suc i, ps ! i)"
    by simp
  with sh show "\<exists>shapes. length shapes = Suc (length layers) \<and> shapes ! 0 = s \<and>
        shapes ! length layers = s' \<and>
        (\<forall>i<length layers.
           init_fun (layers ! i) (layer_seed random_split rng i) (shapes ! i)
             = Inr (shapes ! Suc i, ps ! i))"
    by blast
next
  assume a: "inj (continuation random_split) \<and> inj (child random_split) \<and>
    no_return_within random_split rng (length layers)"
  have "inj_on (layer_seed random_split rng) {..<length layers}"
    by (rule layer_seed_inj_on) (simp_all add: a)
  moreover have "set [0..<length layers] = {..<length layers}"
    by (simp add: atLeast0LessThan)
  ultimately show "distinct (map (layer_seed random_split rng) [0..<length layers])"
    by (simp add: distinct_map)
qed

theorem serial_init_seed_schedule_witness:
  "serial_init split_word split_word_n
     [seed_layer :: (32 word, 32 word, real) layer, seed_layer] 5 [- 1, 41]
     = Inr ([- 1, 41], [- 5, - 6]) \<and>
   inj (continuation split_word) \<and> inj (child split_word) \<and>
   no_return_within split_word 5 (length [seed_layer :: (32 word, 32 word, real) layer, seed_layer]) \<and>
   distinct (map (layer_seed split_word 5)
     [0..<length [seed_layer :: (32 word, 32 word, real) layer, seed_layer]]) \<and>
   map (layer_seed split_word 5) [0..<2] = [- 5, - 6]"
proof -
  have run: "serial_init split_word split_word_n
      [seed_layer :: (32 word, 32 word, real) layer, seed_layer] 5 [- 1, 41]
      = Inr ([- 1, 41], [- 5, - 6])"
    by (simp add: serial_init_nonempty init_loop_Cons seed_layer_def split_word_def)
  have seeds: "map (layer_seed split_word 5) [0..<2] = [- 5, - 6]"
    by (simp add: layer_seed_def running_rng_def child_def continuation_def split_word_def
        numeral_2_eq_2)
  have h: "inj (continuation split_word) \<and> inj (child split_word) \<and>
      no_return_within split_word 5
        (length [seed_layer :: (32 word, 32 word, real) layer, seed_layer])"
    using no_return_within_split_word
    by (simp add: inj_continuation_split_word inj_child_split_word numeral_2_eq_2)
  note r = serial_init_seed_schedule[of split_word split_word_n
      "[seed_layer :: (32 word, 32 word, real) layer, seed_layer]" 5 "[- 1, 41]" "[- 1, 41]"
      "[- 5, - 6]", THEN mp, OF run]
  have "distinct (map (layer_seed split_word 5)
      [0..<length [seed_layer :: (32 word, 32 word, real) layer, seed_layer]])"
    by (rule r[THEN conjunct2, THEN conjunct2, THEN mp, OF h])
  with run seeds h show ?thesis by simp
qed

text \<open>
  The claim C8 as stated fails: the splitter \<open>k \<mapsto> (2k, 2k + 1)\<close> on the integers is a
  function, it is injective, each of its components is injective and no seed is both a
  first and a second component; yet from the seed 0 the running seed stays 0 and both
  layers of a composite receive the seed 1.
\<close>

theorem serial_init_same_seed_counterexample:
  "inj split_double \<and> inj (continuation split_double) \<and> inj (child split_double) \<and>
   range (continuation split_double) \<inter> range (child split_double) = {} \<and>
   serial_init split_double split_double_n [seed_layer :: (int, int, real) layer, seed_layer]
     0 [- 1, 41] = Inr ([- 1, 41], [1, 1])"
proof -
  have "2 * x \<noteq> 2 * y + 1" for x y :: int by presburger
  then have "range (continuation split_double) \<inter> range (child split_double) = {}"
    by (auto simp: continuation_def child_def split_double_def)
  moreover have "inj split_double" "inj (continuation split_double)" "inj (child split_double)"
    by (simp_all add: inj_def continuation_def child_def split_double_def)
  moreover have "serial_init split_double split_double_n
      [seed_layer :: (int, int, real) layer, seed_layer] 0 [- 1, 41] = Inr ([- 1, 41], [1, 1])"
    by (simp add: serial_init_nonempty init_loop_Cons seed_layer_def split_double_def)
  ultimately show ?thesis by simp
qed

section \<open>Determinism of the initialisation\<close>

lemma init_loop_st_Cons:
  "init_loop_st sp (f # fs) rng s acc g =
     (case fst (f (snd (sp rng)) s g) of
        Inl e \<Rightarrow> (Inl e, snd (f (snd (sp rng)) s g))
      | Inr r \<Rightarrow> init_loop_st sp fs (fst (sp rng)) (fst r) (acc @ [snd r])
                  (snd (f (snd (sp rng)) s g)))"
  by (simp add: case_prod_beta split: sum.splits prod.splits)

declare init_loop_st.simps(2) [simp del]

lemma statelessD: "stateless f \<Longrightarrow> f k s g = (fst (f k s g0), g)"
  unfolding stateless_def by (metis prod.collapse)

lemma pure_init_stateless: "stateless (pure_init f)"
  by (simp add: stateless_def pure_init_def)

text \<open>With layers that keep the contract, the loop in a process with state is the loop
  of the pure model, and the state comes back untouched.\<close>

lemma init_loop_st_stateless:
  "list_all stateless fs \<Longrightarrow>
   init_loop_st sp fs rng s acc g
     = (init_loop sp (map (\<lambda>f k s. fst (f k s g0)) fs) rng s acc, g)"
proof (induction fs arbitrary: rng s acc)
  case Nil
  then show ?case by simp
next
  case (Cons f fs)
  then have f: "f (snd (sp rng)) s g = (fst (f (snd (sp rng)) s g0), g)"
    and fs: "list_all stateless fs"
    by (simp_all add: statelessD)
  show ?case
    by (cases "fst (f (snd (sp rng)) s g0)")
       (simp_all add: init_loop_st_Cons init_loop_Cons f Cons.IH[OF fs])
qed

text \<open>
  C7. For every seed, every input shape and every sequence of layers whose \<open>init_fun\<close>s
  keep the layer contract (their result does not depend on the process state and they
  leave it unchanged), the composite's \<open>init_fun\<close> returns the same parameters and the
  same output shape in every process state, leaves the state unchanged, and so returns
  identical results when called twice in succession with identical arguments: the loop
  adds no dependence on process-wide state, and the seed is its only source of the
  layers' seeds.
\<close>

theorem serial_init_deterministic:
  assumes "list_all stateless init_funs"
  shows "fst (serial_init_fun_st random_split init_funs rng s g)
           = fst (serial_init_fun_st random_split init_funs rng s g') \<and>
         snd (serial_init_fun_st random_split init_funs rng s g) = g \<and>
         (case serial_init_fun_st random_split init_funs rng s g of (r1, g1) \<Rightarrow>
            (case serial_init_fun_st random_split init_funs rng s g1 of (r2, g2) \<Rightarrow>
               r2 = r1 \<and> g2 = g))"
  by (simp add: serial_init_fun_st_def init_loop_st_stateless[OF assms, where ?g0.0 = g])

theorem serial_init_deterministic_witness:
  "list_all stateless example_init_funs \<and>
   fst (serial_init_fun_st split_tree example_init_funs 42 [- 1, 41] 0)
     = fst (serial_init_fun_st split_tree example_init_funs 42 [- 1, 41] 5) \<and>
   snd (serial_init_fun_st split_tree example_init_funs 42 [- 1, 41] 0) = 0 \<and>
   fst (serial_init_fun_st split_tree example_init_funs 42 [- 1, 41] 0)
     = Inr ([- 1, 20], [DenseParams (zeros [41, 20]) (zeros [20]), EmptyParams])"
proof -
  have h: "list_all stateless example_init_funs"
    by (simp add: example_init_funs_def pure_init_stateless)
  have v: "fst (serial_init_fun_st split_tree example_init_funs 42 [- 1, 41] 0)
     = Inr ([- 1, 20], [DenseParams (zeros [41, 20]) (zeros [20]), EmptyParams])"
    by (simp add: example_init_funs_def serial_init_fun_st_def init_loop_st_Cons pure_init_def
        Dense_def Dense_init_fun_def elementwise_def zeros_init_def case_prod_beta)
  from serial_init_deterministic[OF h, of split_tree 42 "[- 1, 41]" 0 5] h v
  show ?thesis by simp
qed

text \<open>The contract of the layers is needed: an \<open>init_fun\<close> that draws from the global
  generator, as the notebook's \<open>dense_params\<close> does, makes the composite's result depend
  on the process state, and advances it.\<close>

lemma serial_init_global_state:
  "fst (serial_init_fun_st split_tree [global_init] 42 [2] 0)
     = Inr ([2], [\<lparr>shape = [2], data = [0, 0]\<rparr>]) \<and>
   fst (serial_init_fun_st split_tree [global_init] 42 [2] 1)
     = Inr ([2], [\<lparr>shape = [2], data = [1, 1]\<rparr>]) \<and>
   snd (serial_init_fun_st split_tree [global_init] 42 [2] 0) = 1"
  by (simp add: serial_init_fun_st_def init_loop_st_Cons global_init_def counter_normal_def
      numeral_2_eq_2)

lemma dense_params_global_state:
  "map_option (\<lambda>d. d ''w'') (fst (dense_params counter_normal Map.empty ''dense1'' 2 1 0) ''dense1'')
     = Some (Some \<lparr>shape = [2, 1], data = [0, 0]\<rparr>) \<and>
   map_option (\<lambda>d. d ''w'') (fst (dense_params counter_normal Map.empty ''dense1'' 2 1 2) ''dense1'')
     = Some (Some \<lparr>shape = [2, 1], data = [2, 2]\<rparr>) \<and>
   snd (dense_params counter_normal Map.empty ''dense1'' 2 1 0) = 2"
  by (simp add: dense_params_def counter_normal_def numeral_2_eq_2)

section \<open>Applying a dense layer\<close>

text \<open>Row \<open>r\<close>, column \<open>j\<close> of a row-major list of \<open>R\<close> rows of length \<open>m\<close>.\<close>

lemma length_concat_rows:
  "length (concat (map (\<lambda>r. map (f r) [0..<m]) [0..<R])) = R * m"
  by (induction R) simp_all

lemma nth_concat_rows:
  "r < R \<Longrightarrow> j < m \<Longrightarrow> concat (map (\<lambda>r. map (f r) [0..<m]) [0..<R]) ! (r * m + j) = f r j"
proof (induction R)
  case 0
  then show ?case by simp
next
  case (Suc R)
  show ?case
  proof (cases "r < R")
    case True
    have "r * m + j < Suc r * m" using Suc.prems(2) by simp
    also have "\<dots> \<le> R * m" using True by (intro mult_le_mono1) simp
    finally have "r * m + j < R * m" .
    with True Suc show ?thesis by (simp add: nth_append length_concat_rows)
  next
    case False
    with Suc.prems have "r = R" by simp
    with Suc.prems show ?thesis by (simp add: nth_append length_concat_rows)
  qed
qed

text \<open>An operand whose shape is the result's shape is read at the same position.\<close>

lemma src_id: "i < prod_list s \<Longrightarrow> src s s i = i"
proof (induction s arbitrary: i)
  case Nil
  then show ?case by simp
next
  case (Cons d ds)
  then have "i < prod_list ds * d" by (simp add: mult.commute)
  then have "i div d < prod_list ds" by (rule less_mult_imp_div_less)
  then have "src ds ds (i div d) = i div d" by (rule Cons.IH)
  then show ?case by simp
qed

lemma bcast_Nil2: "bcast xs [] = Some xs"
  by (cases xs) simp_all

lemma sum_list_upt: "sum_list (map f [0..<n]) = (\<Sum>k<n. f k)"
  by (simp add: interv_sum_list_conv_sum_set_nat atLeast0LessThan)

lemma np_map_shape: "shape (np_map f x) = shape x"
  by (simp add: np_map_def)

text \<open>The product with a matrix, and the sum with a vector as long as the last axis.\<close>

lemma np_dot_2d:
  assumes "shape a = lead @ [n]" "shape w = [n, m]"
  shows "np_dot a w = Inr \<lparr>shape = lead @ [m],
           data = concat (map (\<lambda>r. map (\<lambda>j.
                    sum_list (map (\<lambda>k. data a ! (r * n + k) * data w ! (k * m + j)) [0..<n]))
                    [0..<m]) [0..<prod_list lead])\<rparr>"
  using assms by (simp add: np_dot_def)

lemma np_add_vec:
  assumes "shape d = lead @ [m]" "shape b = [m]"
  shows "np_add d b = Inr \<lparr>shape = lead @ [m],
           data = map (\<lambda>i. data d ! src (m # rev lead) (m # rev lead) i + data b ! (i mod m))
                    [0..<prod_list lead * m]\<rparr>"
proof -
  have "bcast (rev (shape d)) (rev (shape b)) = Some (m # rev lead)"
    using assms by (simp add: bcast_Nil2)
  moreover have "src [m] (m # rev lead) i = i mod m" for i
    by simp
  ultimately show ?thesis using assms by (simp add: np_add_def mult.commute)
qed

lemma Dense_apply_fun_2d:
  assumes "shape x = lead @ [n]" "shape W = [n, m]" "shape b = [m]"
  shows "\<exists>y. Dense_apply_fun (DenseParams W b) x rng = Inr y \<and> shape y = lead @ [m] \<and>
             wf_array y \<and>
             (\<forall>r<prod_list lead. \<forall>j<m.
                data y ! (r * m + j)
                  = (\<Sum>k<n. data x ! (r * n + k) * data W ! (k * m + j)) + data b ! j)"
proof -
  let ?F = "\<lambda>r j. sum_list (map (\<lambda>k. data x ! (r * n + k) * data W ! (k * m + j)) [0..<n])"
  let ?d = "\<lparr>shape = lead @ [m],
           data = concat (map (\<lambda>r. map (?F r) [0..<m]) [0..<prod_list lead])\<rparr>"
  let ?y = "\<lparr>shape = lead @ [m],
           data = map (\<lambda>i. data ?d ! src (m # rev lead) (m # rev lead) i + data b ! (i mod m))
                    [0..<prod_list lead * m]\<rparr>"
  have dot: "np_dot x W = Inr ?d" using assms(1,2) by (rule np_dot_2d)
  have add: "np_add ?d b = Inr ?y" using assms(3) by (intro np_add_vec) simp_all
  have app: "Dense_apply_fun (DenseParams W b) x rng = Inr ?y"
    by (simp add: Dense_apply_fun_def dot add)
  have wf: "wf_array ?y" by (simp add: wf_array_def)
  have el: "data ?y ! (r * m + j)
              = (\<Sum>k<n. data x ! (r * n + k) * data W ! (k * m + j)) + data b ! j"
    if r: "r < prod_list lead" and j: "j < m" for r j
  proof -
    have "r * m + j < Suc r * m" using j by simp
    also have "\<dots> \<le> prod_list lead * m" using r by (intro mult_le_mono1) simp
    finally have lt: "r * m + j < prod_list lead * m" .
    then have "r * m + j < prod_list (m # rev lead)" by (simp add: mult.commute)
    then have s: "src (m # rev lead) (m # rev lead) (r * m + j) = r * m + j" by (rule src_id)
    have "data ?y ! (r * m + j)
            = data ?d ! src (m # rev lead) (m # rev lead) (r * m + j)
              + data b ! ((r * m + j) mod m)"
      using lt by (simp del: src.simps)
    also have "\<dots> = data ?d ! (r * m + j) + data b ! ((r * m + j) mod m)"
      by (simp only: s)
    also have "data ?d ! (r * m + j) = ?F r j"
      using r j by (simp add: nth_concat_rows)
    also have "(r * m + j) mod m = j" using j by simp
    finally show ?thesis by (simp add: sum_list_upt)
  qed
  from app wf el show ?thesis by (intro exI[of _ ?y]) simp
qed

text \<open>
  C6. For every parameter pair \<open>(W, b)\<close> of a dense layer, \<open>W\<close> of shape \<open>(n, m)\<close> and \<open>b\<close>
  of shape \<open>(m,)\<close> as the data model has them, and every input array of rank at least 1
  whose trailing dimension is \<open>n\<close>, \<open>Dense\<close>'s \<open>apply_fun\<close> returns \<open>inputs \<cdot> W + b\<close>: the
  result has the input's leading axes followed by \<open>m\<close>, and for every position \<open>r\<close> of the
  leading axes (in row-major order) and every column \<open>j\<close> its element is the sum over the
  trailing axis of \<open>inputs[r, k] * W[k, j]\<close>, plus \<open>b[j]\<close>. The arithmetic is exact.
\<close>

theorem Dense_apply_exact:
  assumes "wf_array inputs" and "wf_array W" and "wf_array b"
    and "shape inputs = lead @ [n]" and "shape W = [n, m]" and "shape b = [m]"
  shows "\<exists>y. apply_fun (Dense random_split W_init b_init out_dim) (DenseParams W b) inputs rng
               = Inr y \<and>
             shape y = lead @ [m] \<and> wf_array y \<and>
             (\<forall>r<prod_list lead. \<forall>j<m.
                data y ! (r * m + j)
                  = (\<Sum>k<n. data inputs ! (r * n + k) * data W ! (k * m + j)) + data b ! j)"
  using Dense_apply_fun_2d[OF assms(4-6), of rng] by (simp add: Dense_def)

theorem Dense_apply_exact_witness:
  "wf_array \<lparr>shape = [2, 2], data = [1, 2, 3, 4 :: real]\<rparr> \<and>
   wf_array \<lparr>shape = [2, 1], data = [1, 1 :: real]\<rparr> \<and>
   wf_array \<lparr>shape = [1], data = [10 :: real]\<rparr> \<and>
   shape \<lparr>shape = [2, 2], data = [1, 2, 3, 4 :: real]\<rparr> = [2] @ [2] \<and>
   shape \<lparr>shape = [2, 1], data = [1, 1 :: real]\<rparr> = [2, 1] \<and>
   shape \<lparr>shape = [1], data = [10 :: real]\<rparr> = [1] \<and>
   (\<exists>y. apply_fun (Dense split_tree zeros_init zeros_init 1)
          (DenseParams \<lparr>shape = [2, 1], data = [1, 1]\<rparr> \<lparr>shape = [1], data = [10]\<rparr>)
          \<lparr>shape = [2, 2], data = [1, 2, 3, 4]\<rparr> (None :: nat option) = Inr y \<and>
        shape y = [2] @ [1] \<and> wf_array y \<and>
        (\<forall>r<prod_list [2]. \<forall>j<1.
           data y ! (r * 1 + j)
             = (\<Sum>k<2. [1, 2, 3, 4] ! (r * 2 + k) * [1, 1] ! (k * 1 + j)) + [10 :: real] ! j))"
proof -
  have h: "wf_array \<lparr>shape = [2, 2], data = [1, 2, 3, 4 :: real]\<rparr>"
    "wf_array \<lparr>shape = [2, 1], data = [1, 1 :: real]\<rparr>"
    "wf_array \<lparr>shape = [1], data = [10 :: real]\<rparr>"
    "shape \<lparr>shape = [2, 2], data = [1, 2, 3, 4 :: real]\<rparr> = [2] @ [2]"
    "shape \<lparr>shape = [2, 1], data = [1, 1 :: real]\<rparr> = [2, 1]"
    "shape \<lparr>shape = [1], data = [10 :: real]\<rparr> = [1]"
    by (simp_all add: wf_array_def)
  from Dense_apply_exact[OF h, of split_tree zeros_init zeros_init 1 None] h
  show ?thesis by simp
qed

text \<open>The same input evaluated: the rows \<open>(1, 2)\<close> and \<open>(3, 4)\<close> times the column
  \<open>(1, 1)\<close>, plus 10.\<close>

lemma Dense_apply_example:
  "apply_fun (Dense split_tree zeros_init zeros_init 1)
          (DenseParams \<lparr>shape = [2, 1], data = [1, 1]\<rparr> \<lparr>shape = [1], data = [10]\<rparr>)
          \<lparr>shape = [2, 2], data = [1, 2, 3, 4 :: real]\<rparr> (None :: nat option)
   = Inr \<lparr>shape = [2, 1], data = [13, 17]\<rparr>"
  by (simp add: Dense_def Dense_apply_fun_def np_dot_def np_add_def numeral_2_eq_2)

section \<open>The notebook's model and its first version\<close>

text \<open>
  C10. For every nested dictionary \<open>p\<close> whose keys \<open>dense1\<close> and \<open>dense2\<close> hold
  dictionaries with the arrays \<open>w\<close> and \<open>b\<close>, and every flat dictionary \<open>q\<close> that holds the
  same four arrays under \<open>w1\<close>, \<open>b1\<close>, \<open>w2\<close>, \<open>b2\<close>, the model written with the \<open>dense\<close>
  helper and the model written out return the same result on every input, the same
  error included. When the shapes match (\<open>x\<close> ends in \<open>n\<close>, \<open>w1\<close> is \<open>(n, h)\<close>, \<open>b1\<close> is
  \<open>(h,)\<close>, \<open>w2\<close> is \<open>(h, m)\<close>, \<open>b2\<close> is \<open>(m,)\<close>) that result is
  \<open>logistic(tanh(x \<cdot> w1 + b1) \<cdot> w2 + b2)\<close>.
\<close>

theorem nn_model_refines_inlined:
  assumes "p ''dense1'' = Some dense1" and "dense1 ''w'' = Some w1" and "dense1 ''b'' = Some b1"
    and "p ''dense2'' = Some dense2" and "dense2 ''w'' = Some w2" and "dense2 ''b'' = Some b2"
    and "q ''w1'' = Some w1" and "q ''b1'' = Some b1"
    and "q ''w2'' = Some w2" and "q ''b2'' = Some b2"
  shows "nn_model p x = nn_model_inlined q x \<and>
    (shape x = lead @ [n] \<and> shape w1 = [n, h] \<and> shape b1 = [h] \<and>
     shape w2 = [h, m] \<and> shape b2 = [m]
      \<longrightarrow> (\<exists>d1 z1 d2 z2. np_dot x w1 = Inr d1 \<and> np_add d1 b1 = Inr z1 \<and>
             np_dot (np_map tanh z1) w2 = Inr d2 \<and> np_add d2 b2 = Inr z2 \<and>
             nn_model p x = Inr (logistic z2) \<and> shape (logistic z2) = lead @ [m]))"
proof (intro conjI impI)
  show "nn_model p x = nn_model_inlined q x"
    by (simp add: nn_model_def nn_model_inlined_def dense_def assms split: sum.splits)
  assume sh: "shape x = lead @ [n] \<and> shape w1 = [n, h] \<and> shape b1 = [h] \<and>
     shape w2 = [h, m] \<and> shape b2 = [m]"
  from sh obtain d1 where d1: "np_dot x w1 = Inr d1" "shape d1 = lead @ [h]"
    using np_dot_2d[of x lead n w1 h] by simp
  from sh d1 obtain z1 where z1: "np_add d1 b1 = Inr z1" "shape z1 = lead @ [h]"
    using np_add_vec[of d1 lead h b1] by simp
  from sh z1 obtain d2 where d2: "np_dot (np_map tanh z1) w2 = Inr d2" "shape d2 = lead @ [m]"
    using np_dot_2d[of "np_map tanh z1" lead h w2 m] by (simp add: np_map_shape)
  from sh d2 obtain z2 where z2: "np_add d2 b2 = Inr z2" "shape z2 = lead @ [m]"
    using np_add_vec[of d2 lead m b2] by simp
  have "nn_model p x = Inr (logistic z2)"
    by (simp add: nn_model_def dense_def assms d1 z1 d2 z2)
  moreover have "shape (logistic z2) = lead @ [m]"
    by (simp add: logistic_def np_map_shape z2)
  ultimately show "\<exists>d1 z1 d2 z2. np_dot x w1 = Inr d1 \<and> np_add d1 b1 = Inr z1 \<and>
             np_dot (np_map tanh z1) w2 = Inr d2 \<and> np_add d2 b2 = Inr z2 \<and>
             nn_model p x = Inr (logistic z2) \<and> shape (logistic z2) = lead @ [m]"
    using d1 z1 d2 z2 by blast
qed

theorem nn_model_refines_inlined_witness:
  "example_nested ''dense1''
     = Some [''w'' \<mapsto> \<lparr>shape = [2, 1], data = [1, 1]\<rparr>, ''b'' \<mapsto> \<lparr>shape = [1], data = [0]\<rparr>] \<and>
   example_nested ''dense2''
     = Some [''w'' \<mapsto> \<lparr>shape = [1, 1], data = [2]\<rparr>, ''b'' \<mapsto> \<lparr>shape = [1], data = [0]\<rparr>] \<and>
   example_flat ''w1'' = Some \<lparr>shape = [2, 1], data = [1, 1]\<rparr> \<and>
   example_flat ''b1'' = Some \<lparr>shape = [1], data = [0]\<rparr> \<and>
   example_flat ''w2'' = Some \<lparr>shape = [1, 1], data = [2]\<rparr> \<and>
   example_flat ''b2'' = Some \<lparr>shape = [1], data = [0]\<rparr> \<and>
   nn_model example_nested \<lparr>shape = [1, 2], data = [0, 0]\<rparr>
     = nn_model_inlined example_flat \<lparr>shape = [1, 2], data = [0, 0]\<rparr> \<and>
   nn_model example_nested \<lparr>shape = [1, 2], data = [0, 0]\<rparr>
     = Inr \<lparr>shape = [1, 1], data = [1 / 2]\<rparr>"
proof -
  let ?d1 = "[''w'' \<mapsto> \<lparr>shape = [2, 1], data = [1, 1 :: real]\<rparr>,
              ''b'' \<mapsto> \<lparr>shape = [1], data = [0]\<rparr>]"
  let ?d2 = "[''w'' \<mapsto> \<lparr>shape = [1, 1], data = [2 :: real]\<rparr>,
              ''b'' \<mapsto> \<lparr>shape = [1], data = [0]\<rparr>]"
  have k: "example_nested ''dense1'' = Some ?d1"
    "?d1 ''w'' = Some \<lparr>shape = [2, 1], data = [1, 1]\<rparr>"
    "?d1 ''b'' = Some \<lparr>shape = [1], data = [0]\<rparr>"
    "example_nested ''dense2'' = Some ?d2"
    "?d2 ''w'' = Some \<lparr>shape = [1, 1], data = [2]\<rparr>"
    "?d2 ''b'' = Some \<lparr>shape = [1], data = [0]\<rparr>"
    "example_flat ''w1'' = Some \<lparr>shape = [2, 1], data = [1, 1]\<rparr>"
    "example_flat ''b1'' = Some \<lparr>shape = [1], data = [0]\<rparr>"
    "example_flat ''w2'' = Some \<lparr>shape = [1, 1], data = [2]\<rparr>"
    "example_flat ''b2'' = Some \<lparr>shape = [1], data = [0]\<rparr>"
    by (simp_all add: example_nested_def example_flat_def)
  have v: "nn_model_inlined example_flat \<lparr>shape = [1, 2], data = [0, 0]\<rparr>
     = Inr \<lparr>shape = [1, 1], data = [1 / 2]\<rparr>"
    by (simp add: nn_model_inlined_def example_flat_def np_dot_def np_add_def np_map_def
        logistic_def numeral_2_eq_2)
  from nn_model_refines_inlined[OF k, of "\<lparr>shape = [1, 2], data = [0, 0]\<rparr>" "[1]" 2 1 1] k v
  show ?thesis by simp
qed

section \<open>Shapes through the composite's apply\<close>

text \<open>For the layer sequence \<open>[Dense(20), activation, Dense(1), activation]\<close> and
  parameters of the shapes that its \<open>init_fun\<close> returns, the composite's \<open>apply_fun\<close>,
  called without \<open>rng\<close> on a table of \<open>N\<close> rows and 41 columns, returns an array of shape
  \<open>(N, 1)\<close>. Nothing is said here about the values: they are \<^verbatim>\<open>float32\<close> numbers in the
  notebook and exact numbers in this model.\<close>

lemma serial_apply_four_layers_shape:
  assumes "shape x = [N, 41]" and "shape W1 = [41, 20]" and "shape b1 = [20]"
    and "shape W2 = [20, 1]" and "shape b2 = [1]"
  shows "\<exists>y. serial_apply (random_split :: 'k \<Rightarrow> 'k \<times> 'k) random_split_n
               [Dense random_split W_init1 b_init1 20, elementwise f,
                Dense random_split W_init2 b_init2 1, elementwise g]
               [DenseParams W1 b1, EmptyParams, DenseParams W2 b2, EmptyParams] x None = Inr y \<and>
             shape y = [N, 1] \<and> wf_array y"
proof -
  from Dense_apply_fun_2d[of x "[N]" 41 W1 20 b1 "None :: 'k option"] assms obtain y1 where
    y1: "Dense_apply_fun (DenseParams W1 b1) x (None :: 'k option) = Inr y1" "shape y1 = [N, 20]"
    by auto
  from Dense_apply_fun_2d[of "np_map f y1" "[N]" 20 W2 1 b2 "None :: 'k option"] assms y1
  obtain y2 where
    y2: "Dense_apply_fun (DenseParams W2 b2) (np_map f y1) (None :: 'k option) = Inr y2"
      "shape y2 = [N, 1]" "wf_array y2"
    by (auto simp: np_map_shape)
  have "serial_apply random_split random_split_n
               [Dense random_split W_init1 b_init1 20, elementwise f,
                Dense random_split W_init2 b_init2 1, elementwise g]
               [DenseParams W1 b1, EmptyParams, DenseParams W2 b2, EmptyParams] x None
          = Inr (np_map g y2)"
    by (simp add: serial_apply_nonempty apply_rngs_def eval_nat_numeral Dense_def
        elementwise_def y1 y2)
  moreover have "shape (np_map g y2) = [N, 1]" "wf_array (np_map g y2)"
    using y2 by (simp_all add: np_map_def wf_array_def)
  ultimately show ?thesis by blast
qed

end
